theory Spec2Isabelle
  imports Main
begin

section \<open>Python strings\<close>

text \<open>
  A Python \<open>str\<close> is a sequence of Unicode code points, so it is modelled as a list of
  natural numbers. Literals are written \<open>pystr ''...''\<close>.
\<close>

type_synonym py_str = "nat list"

abbreviation (input) pystr :: "string \<Rightarrow> py_str" where
  "pystr cs \<equiv> map of_char cs"

text \<open>\<open>str.isspace\<close> on one code point: the whitespace table of CPython.\<close>

definition isspace :: "nat \<Rightarrow> bool" where
  "isspace c = ((9 \<le> c \<and> c \<le> 13) \<or> (28 \<le> c \<and> c \<le> 32) \<or> c = 133 \<or> c = 160
     \<or> c = 5760 \<or> (8192 \<le> c \<and> c \<le> 8202) \<or> c = 8232 \<or> c = 8233
     \<or> c = 8239 \<or> c = 8287 \<or> c = 12288)"

text \<open>The line boundaries of \<open>str.splitlines\<close>; \<open>\r\n\<close> is handled below.\<close>

definition is_linebreak :: "nat \<Rightarrow> bool" where
  "is_linebreak c = (c = 10 \<or> c = 11 \<or> c = 12 \<or> c = 13 \<or> c = 28 \<or> c = 29 \<or> c = 30
     \<or> c = 133 \<or> c = 8232 \<or> c = 8233)"

text \<open>\<open>s.strip()\<close> without arguments.\<close>

definition strip :: "py_str \<Rightarrow> py_str" where
  "strip s = rev (dropWhile isspace (rev (dropWhile isspace s)))"

text \<open>
  \<open>s.splitlines()\<close>: the lines without their terminators; \<open>\r\n\<close> is one terminator, and
  a terminator at the very end opens no further line. The first argument is the
  current line, reversed.
\<close>

fun splitlines_from :: "py_str \<Rightarrow> py_str \<Rightarrow> py_str list" where
  "splitlines_from acc [] = (if acc = [] then [] else [rev acc])"
| "splitlines_from acc (c # cs) =
     (if c = 13 then
        (case cs of
           d # ds \<Rightarrow> if d = 10 then rev acc # splitlines_from [] ds
                     else rev acc # splitlines_from [] cs
         | [] \<Rightarrow> rev acc # splitlines_from [] cs)
      else if is_linebreak c then rev acc # splitlines_from [] cs
      else splitlines_from (c # acc) cs)"

definition splitlines :: "py_str \<Rightarrow> py_str list" where
  "splitlines s = splitlines_from [] s"

text \<open>\<open>s.split(sep, 1)\<close> for a separator of one code point: one or two pieces.\<close>

definition split_once :: "nat \<Rightarrow> py_str \<Rightarrow> py_str list" where
  "split_once sep s =
     (if sep \<in> set s
      then [takeWhile (\<lambda>c. c \<noteq> sep) s, tl (dropWhile (\<lambda>c. c \<noteq> sep) s)]
      else [s])"

text \<open>\<open>s.startswith(p)\<close>.\<close>

definition startswith :: "py_str \<Rightarrow> py_str \<Rightarrow> bool" where
  "startswith s p = (take (length p) s = p)"

section \<open>Exceptions\<close>

text \<open>
  Every exception carries the text that \<open>str(exc)\<close> gives. \<open>RequestException\<close> is the
  base class of the errors of the \<open>requests\<close> library; \<open>OtherException\<close> stands for any
  other subclass of \<open>Exception\<close> raised by a library or the operating system
  (\<open>URLError\<close>, \<open>OSError\<close>, \<open>UnicodeDecodeError\<close>).
\<close>

datatype py_exception =
    MissingEnvironmentVariableError py_str
  | RuntimeError py_str
  | RequestException py_str
  | KeyError py_str
  | TypeError py_str
  | ValueError py_str
  | OtherException py_str

fun exc_str :: "py_exception \<Rightarrow> py_str" where
  "exc_str (MissingEnvironmentVariableError m) = m"
| "exc_str (RuntimeError m) = m"
| "exc_str (RequestException m) = m"
| "exc_str (KeyError m) = m"
| "exc_str (TypeError m) = m"
| "exc_str (ValueError m) = m"
| "exc_str (OtherException m) = m"

section \<open>The configuration file (fetch_sp_api_token.py at the repository root)\<close>

type_synonym env_dict = "py_str \<rightharpoonup> py_str"

text \<open>
  The file \<open>.env\<close> of the working directory as \<open>load_env_file\<close> sees it: it does not
  exist, or \<open>read_text\<close> returns its text, or \<open>read_text\<close> raises.
\<close>

datatype env_file = Absent | Content py_str | Unreadable py_exception

definition ENV_FILENAME :: py_str where
  "ENV_FILENAME = pystr ''.env''"

text \<open>
  The body of the loop of \<open>load_env_file\<close>. The source unpacks the result of
  \<open>split\<close> into two names, which raises \<open>ValueError\<close> on any other number of pieces.
\<close>

definition env_line :: "py_str \<Rightarrow> env_dict \<Rightarrow> py_exception + env_dict" where
  "env_line line values =
     (let stripped = strip line in
      if stripped = [] \<or> startswith stripped (pystr ''#'') then Inr values
      else if 61 \<notin> set stripped then Inr values
      else (case split_once 61 stripped of
              [name, val] \<Rightarrow> Inr (values(strip name \<mapsto> strip val))
            | _ \<Rightarrow> Inl (ValueError (pystr ''not enough values to unpack (expected 2, got 1)''))))"

fun env_lines :: "py_str list \<Rightarrow> env_dict \<Rightarrow> py_exception + env_dict" where
  "env_lines [] values = Inr values"
| "env_lines (line # rest) values =
     (case env_line line values of
        Inl e \<Rightarrow> Inl e
      | Inr values' \<Rightarrow> env_lines rest values')"

definition load_env_file :: "env_file \<Rightarrow> py_exception + env_dict" where
  "load_env_file f =
     (case f of
        Absent \<Rightarrow> Inr Map.empty
      | Unreadable e \<Rightarrow> Inl e
      | Content text \<Rightarrow> env_lines (splitlines text) Map.empty)"

definition missing_message :: "py_str \<Rightarrow> py_str" where
  "missing_message name =
     pystr ''Required variable '' @ [39] @ name @ [39] @ pystr '' is not defined in ''
       @ ENV_FILENAME @ pystr '' or the environment.''"

text \<open>
  \<open>get_env_value\<close> of the root script; \<open>os.environ\<close> is its first argument here.
\<close>

definition get_env_value :: "env_dict \<Rightarrow> py_str \<Rightarrow> env_dict \<Rightarrow> py_exception + py_str" where
  "get_env_value os_environ name env_file_values =
     (if name \<in> dom env_file_values \<and> the (env_file_values name) \<noteq> []
      then Inr (the (env_file_values name))
      else (case os_environ name of
              Some v \<Rightarrow> Inr v
            | None \<Rightarrow> Inl (MissingEnvironmentVariableError (missing_message name))))"

section \<open>JSON values, requests and the outside world\<close>

text \<open>
  The values \<open>json.loads\<close> returns. A float is \<open>m * 2 ^ e\<close>, an infinity or
  not-a-number; a \<open>dict\<close> is the list of its items in insertion order.
\<close>

datatype py_float = Finite int int | PosInf | NegInf | NaN

datatype json =
    JNull
  | JBool bool
  | JInt int
  | JFloat py_float
  | JString py_str
  | JArray "json list"
  | JObject "(py_str \<times> json) list"

datatype payload = NoData | Bytes "nat list" | Form "(py_str \<times> py_str) list"

text \<open>What the script hands to the HTTP library; \<open>req_timeout\<close> is in seconds.\<close>

record http_request =
  req_method :: py_str
  req_url :: py_str
  req_headers :: "(py_str \<times> py_str) list"
  req_params :: "(py_str \<times> py_str) list"
  req_data :: payload
  req_timeout :: "nat option"

text \<open>
  A response of the \<open>requests\<close> library: \<open>resp_json\<close> is the outcome of
  \<open>response.json()\<close>, with \<open>Inl\<close> the text of the decoding error (a \<open>ValueError\<close>).
\<close>

record response =
  status_code :: int
  resp_text :: py_str
  resp_json :: "py_str + json"

text \<open>
  The state a run reads and writes: \<open>os.environ\<close>, the file \<open>.env\<close>, the two output
  streams, and the requests handed to the HTTP library so far.
\<close>

record world =
  environ :: env_dict
  dotenv_file :: env_file
  stdout :: py_str
  stderr :: py_str
  sent :: "http_request list"

text \<open>
  The library functions the scripts call are parameters of the model:
  \<open>json.loads\<close> (\<open>None\<close> is \<open>JSONDecodeError\<close>), \<open>json.dumps\<close> with \<open>indent=2\<close>,
  \<open>repr\<close> of a value that is no string, number, boolean or \<open>None\<close>, the text of the
  \<open>TypeError\<close> of indexing a value that is no \<open>dict\<close> with a string,
  \<open>urllib.parse.urlencode\<close> followed by the encoding to bytes,
  \<open>urllib.request.urlopen\<close> followed by reading and decoding the body,
  \<open>requests.post\<close> and \<open>requests.get\<close>, \<open>Response.raise_for_status\<close>, and
  \<open>dotenv.load_dotenv\<close>, which returns the new \<open>os.environ\<close>.
\<close>

record lib =
  json_loads :: "py_str \<Rightarrow> json option"
  json_dumps :: "json \<Rightarrow> py_str"
  repr :: "json \<Rightarrow> py_str"
  subscript_error :: "json \<Rightarrow> py_str"
  urlencode :: "(py_str \<times> py_str) list \<Rightarrow> nat list"
  urlopen :: "http_request \<Rightarrow> py_exception + py_str"
  requests_send :: "http_request \<Rightarrow> py_exception + response"
  raise_for_status :: "response \<Rightarrow> py_exception option"
  load_dotenv :: "env_file \<Rightarrow> env_dict \<Rightarrow> env_dict"

text \<open>\<open>str(n)\<close> for an integer.\<close>

fun digits :: "nat \<Rightarrow> py_str" where
  "digits n = (if n < 10 then [48 + n] else digits (n div 10) @ [48 + n mod 10])"

declare digits.simps [simp del]

definition str_of_int :: "int \<Rightarrow> py_str" where
  "str_of_int i = (if i < 0 then 45 # digits (nat (- i)) else digits (nat i))"

text \<open>\<open>str(v)\<close>, the text \<open>print(v)\<close> writes.\<close>

definition str_json :: "lib \<Rightarrow> json \<Rightarrow> py_str" where
  "str_json L v =
     (case v of
        JString s \<Rightarrow> s
      | JInt i \<Rightarrow> str_of_int i
      | JNull \<Rightarrow> pystr ''None''
      | JBool b \<Rightarrow> (if b then pystr ''True'' else pystr ''False'')
      | _ \<Rightarrow> repr L v)"

text \<open>\<open>v[key]\<close> for a string \<open>key\<close>.\<close>

definition getitem :: "lib \<Rightarrow> json \<Rightarrow> py_str \<Rightarrow> py_exception + json" where
  "getitem L v key =
     (case v of
        JObject items \<Rightarrow>
          (case map_of items key of
             Some x \<Rightarrow> Inr x
           | None \<Rightarrow> Inl (KeyError ([39] @ key @ [39])))
      | _ \<Rightarrow> Inl (TypeError (subscript_error L v)))"

section \<open>The token client\<close>

definition TOKEN_ENDPOINT :: py_str where
  "TOKEN_ENDPOINT = pystr ''https://api.amazon.com/auth/o2/token''"

definition FORM_CONTENT_TYPE :: py_str where
  "FORM_CONTENT_TYPE = pystr ''application/x-www-form-urlencoded;charset=UTF-8''"

definition non_json_message :: "py_str \<Rightarrow> py_str" where
  "non_json_message response_text =
     pystr ''Amazon SP-API token endpoint returned non-JSON response: '' @ response_text"

definition missing_field_message :: py_str where
  "missing_field_message =
     pystr ''Response JSON is missing the '' @ [39] @ pystr ''access_token'' @ [39]
       @ pystr '' field.''"

subsection \<open>fetch_sp_api_token.py at the repository root (urllib)\<close>

definition build_request_payload :: "lib \<Rightarrow> py_str \<Rightarrow> py_str \<Rightarrow> py_str \<Rightarrow> nat list" where
  "build_request_payload L client_id client_secret refresh_token =
     urlencode L
       [(pystr ''client_id'', client_id),
        (pystr ''client_secret'', client_secret),
        (pystr ''grant_type'', pystr ''refresh_token''),
        (pystr ''refresh_token'', refresh_token)]"

text \<open>The \<open>Request\<close> object the root script builds; \<open>urlopen\<close> gets no timeout.\<close>

definition token_request :: "nat list \<Rightarrow> http_request" where
  "token_request payload =
     \<lparr>req_method = pystr ''POST'', req_url = TOKEN_ENDPOINT,
      req_headers = [(pystr ''Content-Type'', FORM_CONTENT_TYPE)],
      req_params = [], req_data = Bytes payload, req_timeout = None\<rparr>"

definition fetch_access_token :: "lib \<Rightarrow> world \<Rightarrow> (py_exception + json) \<times> world" where
  "fetch_access_token L w =
     (case load_env_file (dotenv_file w) of
        Inl e \<Rightarrow> (Inl e, w)
      | Inr env_values \<Rightarrow>
     (case get_env_value (environ w) (pystr ''SP_API_CLIENT_ID'') env_values of
        Inl e \<Rightarrow> (Inl e, w)
      | Inr client_id \<Rightarrow>
     (case get_env_value (environ w) (pystr ''SP_API_SECRET'') env_values of
        Inl e \<Rightarrow> (Inl e, w)
      | Inr client_secret \<Rightarrow>
     (case get_env_value (environ w) (pystr ''SP_API_TOKEN'') env_values of
        Inl e \<Rightarrow> (Inl e, w)
      | Inr refresh_token \<Rightarrow>
     (let payload = build_request_payload L client_id client_secret refresh_token;
          req = token_request payload;
          w1 = w\<lparr>sent := sent w @ [req]\<rparr>
      in (case urlopen L req of
            Inl e \<Rightarrow> (Inl e, w1)
          | Inr response_text \<Rightarrow>
         (case json_loads L response_text of
            None \<Rightarrow> (Inl (RuntimeError (non_json_message response_text)), w1)
          | Some response_json \<Rightarrow>
         (case getitem L response_json (pystr ''access_token'') of
            Inl (KeyError k) \<Rightarrow> (Inl (RuntimeError missing_field_message), w1)
          | Inl e \<Rightarrow> (Inl e, w1)
          | Inr access_token \<Rightarrow>
              (Inr access_token,
               w1\<lparr>stderr := stderr w1 @ json_dumps L response_json @ [10]\<rparr>)))))))))"

text \<open>
  The script body under \<open>__main__\<close>: the exit status and the final state.
\<close>

definition main :: "lib \<Rightarrow> world \<Rightarrow> int \<times> world" where
  "main L w =
     (case fetch_access_token L w of
        (Inl (MissingEnvironmentVariableError m), w1) \<Rightarrow>
          (1, w1\<lparr>stderr := stderr w1 @ m @ [10]\<rparr>)
      | (Inl e, w1) \<Rightarrow>
          (1, w1\<lparr>stderr := stderr w1 @ pystr ''Failed to retrieve access token: ''
                                 @ exc_str e @ [10]\<rparr>)
      | (Inr token, w1) \<Rightarrow>
          (0, w1\<lparr>stdout := stdout w1 @ str_json L token @ [10]\<rparr>))"

subsection \<open>src/fetch_sp_api_token.py (requests and dotenv)\<close>

definition src_get_env_value :: "env_dict \<Rightarrow> py_str \<Rightarrow> py_exception + py_str" where
  "src_get_env_value os_environ name =
     (case os_environ name of
        Some v \<Rightarrow> Inr v
      | None \<Rightarrow>
          Inl (MissingEnvironmentVariableError
                 (pystr ''Required variable '' @ [39] @ name @ [39]
                    @ pystr '' is not defined in .env or the environment.'')))"

definition src_build_request_payload ::
    "py_str \<Rightarrow> py_str \<Rightarrow> py_str \<Rightarrow> (py_str \<times> py_str) list" where
  "src_build_request_payload client_id client_secret refresh_token =
     [(pystr ''client_id'', client_id),
      (pystr ''client_secret'', client_secret),
      (pystr ''grant_type'', pystr ''refresh_token''),
      (pystr ''refresh_token'', refresh_token)]"

text \<open>The arguments of the call of \<open>requests.post\<close>.\<close>

definition src_token_request :: "(py_str \<times> py_str) list \<Rightarrow> http_request" where
  "src_token_request payload =
     \<lparr>req_method = pystr ''POST'', req_url = TOKEN_ENDPOINT,
      req_headers = [(pystr ''Content-Type'', FORM_CONTENT_TYPE)],
      req_params = [], req_data = Form payload, req_timeout = Some 30\<rparr>"

definition src_fetch_access_token :: "lib \<Rightarrow> world \<Rightarrow> (py_exception + json) \<times> world" where
  "src_fetch_access_token L w =
     (let w0 = w\<lparr>environ := load_dotenv L (dotenv_file w) (environ w)\<rparr> in
     (case src_get_env_value (environ w0) (pystr ''SP_API_CLIENT_ID'') of
        Inl e \<Rightarrow> (Inl e, w0)
      | Inr client_id \<Rightarrow>
     (case src_get_env_value (environ w0) (pystr ''SP_API_SECRET'') of
        Inl e \<Rightarrow> (Inl e, w0)
      | Inr client_secret \<Rightarrow>
     (case src_get_env_value (environ w0) (pystr ''SP_API_TOKEN'') of
        Inl e \<Rightarrow> (Inl e, w0)
      | Inr refresh_token \<Rightarrow>
     (let payload = src_build_request_payload client_id client_secret refresh_token;
          req = src_token_request payload;
          w1 = w0\<lparr>sent := sent w0 @ [req]\<rparr>
      in (case (case requests_send L req of
                  Inl e \<Rightarrow> Inl e
                | Inr response \<Rightarrow>
                    (case raise_for_status L response of
                       Some e \<Rightarrow> Inl e
                     | None \<Rightarrow> Inr response)) of
            Inl (RequestException m) \<Rightarrow>
              (Inl (RuntimeError (pystr ''Failed to fetch access token: '' @ m)), w1)
          | Inl e \<Rightarrow> (Inl e, w1)
          | Inr response \<Rightarrow>
         (let response_text = resp_text response in
         (case resp_json response of
            Inl d \<Rightarrow> (Inl (RuntimeError (non_json_message response_text)), w1)
          | Inr response_json \<Rightarrow>
         (case getitem L response_json (pystr ''access_token'') of
            Inl (KeyError k) \<Rightarrow> (Inl (RuntimeError missing_field_message), w1)
          | Inl e \<Rightarrow> (Inl e, w1)
          | Inr access_token \<Rightarrow>
              (Inr access_token,
               w1\<lparr>stderr := stderr w1 @ json_dumps L response_json @ [10]\<rparr>))))))))))"

definition src_main :: "lib \<Rightarrow> world \<Rightarrow> int \<times> world" where
  "src_main L w =
     (case src_fetch_access_token L w of
        (Inl (MissingEnvironmentVariableError m), w1) \<Rightarrow>
          (1, w1\<lparr>stderr := stderr w1 @ m @ [10]\<rparr>)
      | (Inl e, w1) \<Rightarrow>
          (1, w1\<lparr>stderr := stderr w1 @ pystr ''Failed to retrieve access token: ''
                                 @ exc_str e @ [10]\<rparr>)
      | (Inr token, w1) \<Rightarrow>
          (0, w1\<lparr>stdout := stdout w1 @ str_json L token @ [10]\<rparr>))"

section \<open>The sandbox caller (src/listing_editor.py)\<close>

definition sandbox_endpoints :: "(py_str \<times> py_str) list" where
  "sandbox_endpoints =
     [(pystr ''NA'', pystr ''sandbox.sellingpartnerapi-na.amazon.com''),
      (pystr ''EU'', pystr ''sandbox.sellingpartnerapi-eu.amazon.com''),
      (pystr ''FE'', pystr ''sandbox.sellingpartnerapi-fe.amazon.com'')]"

text \<open>The arguments of the call of \<open>requests.get\<close>.\<close>

definition example_request :: "py_str \<Rightarrow> py_str \<Rightarrow> http_request" where
  "example_request url token =
     \<lparr>req_method = pystr ''GET'', req_url = url,
      req_headers =
        [(pystr ''x-amz-access-token'', token),
         (pystr ''Content-Type'', pystr ''application/json''),
         (pystr ''User-Agent'', pystr ''My-Testing-App/1.0'')],
      req_params =
        [(pystr ''MarketplaceIds'', pystr ''ATVPDKIKX0DER''),
         (pystr ''CreatedAfter'', pystr ''TEST_CASE_200'')],
      req_data = NoData, req_timeout = None\<rparr>"

definition fetch_example ::
    "lib \<Rightarrow> (py_str \<times> py_str) list \<Rightarrow> py_str \<Rightarrow> world \<Rightarrow> (py_exception + json) \<times> world" where
  "fetch_example L endpoints token w =
     (case map_of endpoints (pystr ''NA'') of
        None \<Rightarrow> (Inl (KeyError ([39] @ pystr ''NA'' @ [39])), w)
      | Some endpoint \<Rightarrow>
     (let url = pystr ''https://'' @ endpoint @ pystr ''/orders/v0/orders'';
          req = example_request url token;
          w1 = w\<lparr>sent := sent w @ [req]\<rparr>
      in (case requests_send L req of
            Inl e \<Rightarrow> (Inl e, w1)
          | Inr response \<Rightarrow>
         (let w2 = w1\<lparr>stdout := stdout w1 @ str_of_int (status_code response) @ [10]\<rparr>
          in (case resp_json response of
                Inl d \<Rightarrow> (Inl (ValueError d), w2)
              | Inr body \<Rightarrow> (Inr body, w2))))))"

section \<open>The parsing rules in the words of the specification\<close>

text \<open>
  A line is ignored when it is blank, when its first character that is not whitespace
  is \<open>#\<close>, or when it holds no \<open>=\<close>. Any other line is cut at its first \<open>=\<close>, and
  both sides are trimmed.
\<close>

definition spec_ignored :: "py_str \<Rightarrow> bool" where
  "spec_ignored l =
     (list_all isspace l
      \<or> (case dropWhile isspace l of [] \<Rightarrow> False | c # _ \<Rightarrow> c = 35)
      \<or> 61 \<notin> set l)"

definition spec_key :: "py_str \<Rightarrow> py_str" where
  "spec_key l = strip (takeWhile (\<lambda>c. c \<noteq> 61) l)"

definition spec_value :: "py_str \<Rightarrow> py_str" where
  "spec_value l = strip (tl (dropWhile (\<lambda>c. c \<noteq> 61) l))"

definition spec_step :: "env_dict \<Rightarrow> py_str \<Rightarrow> env_dict" where
  "spec_step m l = (if spec_ignored l then m else m(spec_key l \<mapsto> spec_value l))"

definition spec_mapping :: "py_str list \<Rightarrow> env_dict" where
  "spec_mapping ls = foldl spec_step Map.empty ls"

section \<open>A concrete run\<close>

text \<open>
  One environment and one set of library functions, to evaluate the scripts on: the
  file \<open>.env\<close> gives two credentials, the process environment all three, and the HTTP
  library answers every request with the given outcome.
\<close>

definition demo_token_text :: py_str where
  \<open>demo_token_text = pystr ''{"access_token": "abc123", "expires_in": 3600}''\<close>

definition demo_token_json :: json where
  "demo_token_json =
     JObject [(pystr ''access_token'', JString (pystr ''abc123'')),
              (pystr ''expires_in'', JInt 3600)]"

definition demo_token_pretty :: py_str where
  \<open>demo_token_pretty =
     pystr ''{\<newline>  "access_token": "abc123",\<newline>  "expires_in": 3600\<newline>}''\<close>

definition demo_error_text :: py_str where
  \<open>demo_error_text = pystr ''{"error": "invalid_grant"}''\<close>

definition demo_error_json :: json where
  "demo_error_json = JObject [(pystr ''error'', JString (pystr ''invalid_grant''))]"

definition demo_loads :: "py_str \<Rightarrow> json option" where
  "demo_loads s =
     (if s = demo_token_text then Some demo_token_json
      else if s = demo_error_text then Some demo_error_json
      else if s = pystr ''[]'' then Some (JArray [])
      else None)"

definition demo_response :: "int \<Rightarrow> py_str \<Rightarrow> response" where
  "demo_response status body =
     \<lparr>status_code = status, resp_text = body,
      resp_json = (case demo_loads body of
                     None \<Rightarrow> Inl (pystr ''Expecting value: line 1 column 1 (char 0)'')
                   | Some j \<Rightarrow> Inr j)\<rparr>"

definition demo_lib :: "py_exception + response \<Rightarrow> lib" where
  "demo_lib outcome =
     \<lparr>json_loads = demo_loads,
      json_dumps = (\<lambda>j. if j = demo_token_json then demo_token_pretty else []),
      repr = (\<lambda>j. []),
      subscript_error = (\<lambda>j. pystr ''list indices must be integers or slices, not str''),
      urlencode = (\<lambda>fields. concat (map (\<lambda>(k, v). k @ [61] @ v @ [38]) fields)),
      urlopen = (\<lambda>req. case outcome of Inl e \<Rightarrow> Inl e | Inr r \<Rightarrow> Inr (resp_text r)),
      requests_send = (\<lambda>req. outcome),
      raise_for_status =
        (\<lambda>r. if 400 \<le> status_code r \<and> status_code r < 600
             then Some (RequestException (pystr ''Server Error'')) else None),
      load_dotenv = (\<lambda>f e. e)\<rparr>"

definition demo_world :: world where
  "demo_world =
     \<lparr>environ = [pystr ''SP_API_CLIENT_ID'' \<mapsto> pystr ''env-id'',
                 pystr ''SP_API_SECRET'' \<mapsto> pystr ''env-secret'',
                 pystr ''SP_API_TOKEN'' \<mapsto> pystr ''env-refresh''],
      dotenv_file =
        Content (pystr ''# credentials\<newline>SP_API_CLIENT_ID = file-id\<newline>SP_API_SECRET=\<newline>''),
      stdout = [], stderr = [], sent = []\<rparr>"

text \<open>The same environment with no credential anywhere.\<close>

definition bare_world :: world where
  "bare_world = \<lparr>environ = Map.empty, dotenv_file = Absent, stdout = [], stderr = [], sent = []\<rparr>"

text \<open>
  A run whose file \<open>.env\<close> defines \<open>SP_API_SECRET\<close> with an empty value while the
  process environment defines the two other credentials only. Here \<open>load_dotenv\<close> is
  what the library does with its default \<open>override=False\<close> on such a file: a key that
  \<open>os.environ\<close> already defines is kept, and every other key of the file is set to the
  value of the file, an empty value included.
\<close>

definition dotenv_lib :: "py_exception + response \<Rightarrow> lib" where
  "dotenv_lib outcome =
     (demo_lib outcome)
       \<lparr>load_dotenv :=
          (\<lambda>f e. case load_env_file f of Inl x \<Rightarrow> e | Inr file_values \<Rightarrow> file_values ++ e)\<rparr>"

definition empty_secret_world :: world where
  "empty_secret_world =
     \<lparr>environ = [pystr ''SP_API_CLIENT_ID'' \<mapsto> pystr ''env-id'',
                 pystr ''SP_API_TOKEN'' \<mapsto> pystr ''env-refresh''],
      dotenv_file = Content (pystr ''SP_API_SECRET=\<newline>''),
      stdout = [], stderr = [], sent = []\<rparr>"

section \<open>Trimming on the right\<close>

definition rstrip :: "py_str \<Rightarrow> py_str" where
  "rstrip s = rev (dropWhile isspace (rev s))"

section \<open>Properties of trimming and of the line parser\<close>

lemma not_space_eq: "\<not> isspace 61" by (simp add: isspace_def)
lemma not_space_hash: "\<not> isspace 35" by (simp add: isspace_def)

lemma strip_rstrip: "strip s = rstrip (dropWhile isspace s)"
  by (simp add: strip_def rstrip_def)

lemma rstrip_keep: "\<not> isspace c \<Longrightarrow> rstrip (a @ c # b) = a @ c # rstrip b"
  by (simp add: rstrip_def dropWhile_append)

lemma rstrip_nil_iff: "rstrip s = [] \<longleftrightarrow> list_all isspace s"
  by (simp add: rstrip_def dropWhile_eq_Nil_conv list_all_iff)

lemma strip_nil_iff: "strip s = [] \<longleftrightarrow> list_all isspace s"
proof -
  have "list_all isspace (dropWhile isspace s) \<longleftrightarrow> list_all isspace s"
    by (induction s) auto
  then show ?thesis by (simp add: strip_rstrip rstrip_nil_iff)
qed

lemma strip_lead: "list_all isspace ws \<Longrightarrow> strip (ws @ s) = strip s"
  by (simp add: strip_def dropWhile_append2 list_all_iff)

lemma dropWhile_rstrip: "dropWhile isspace (rstrip s) = rstrip (dropWhile isspace s)"
proof (induction s)
  case Nil
  then show ?case by (simp add: rstrip_def)
next
  case (Cons c s)
  show ?case
  proof (cases "isspace c")
    case False
    then show ?thesis using rstrip_keep[of c "[]" s] by simp
  next
    case True
    show ?thesis
    proof (cases "list_all isspace s")
      case True
      with \<open>isspace c\<close> have "rstrip (c # s) = []" "rstrip (dropWhile isspace (c # s)) = []"
        by (auto simp add: rstrip_nil_iff list_all_iff dest: set_dropWhileD)
      then show ?thesis by simp
    next
      case False
      then have "rstrip (c # s) = c # rstrip s"
        by (auto simp add: rstrip_def dropWhile_append list_all_iff)
      with True Cons show ?thesis by simp
    qed
  qed
qed

lemma rstrip_idem: "rstrip (rstrip s) = rstrip s"
proof (cases "rstrip s = []")
  case True then show ?thesis by (simp add: rstrip_def)
next
  case False
  then have "dropWhile isspace (rev s) \<noteq> []" by (simp add: rstrip_def)
  then have "\<not> isspace (hd (dropWhile isspace (rev s)))" by (rule hd_dropWhile)
  then show ?thesis using \<open>dropWhile isspace (rev s) \<noteq> []\<close>
    by (cases "dropWhile isspace (rev s)") (simp_all add: rstrip_def)
qed

lemma strip_rstrip_absorb: "strip (rstrip s) = strip s"
  by (simp add: strip_rstrip dropWhile_rstrip rstrip_idem)

lemma strip_dropWhile: "strip (dropWhile isspace s) = strip s"
  by (simp add: strip_def)

lemma dropWhile_split:
  "dropWhile isspace (a @ 61 # b) = dropWhile isspace a @ 61 # b"
  by (simp add: dropWhile_append not_space_eq dropWhile_eq_Nil_conv)

lemma strip_split:
  "strip (a @ 61 # b) = dropWhile isspace a @ 61 # rstrip b"
  by (simp add: strip_rstrip dropWhile_split rstrip_keep not_space_eq)

lemma set_strip_subset: "set (strip s) \<subseteq> set s"
proof -
  have "set (rstrip t) \<subseteq> set t" for t
    using set_dropWhileD[of _ isspace "rev t"] by (auto simp add: rstrip_def)
  moreover have "set (dropWhile isspace s) \<subseteq> set s"
    by (auto dest: set_dropWhileD)
  ultimately show ?thesis unfolding strip_rstrip by blast
qed

lemma startswith_hash:
  "startswith (strip l) [35] \<longleftrightarrow> (case dropWhile isspace l of [] \<Rightarrow> False | c # _ \<Rightarrow> c = 35)"
proof (cases "dropWhile isspace l")
  case Nil
  show ?thesis unfolding strip_rstrip Nil by (simp add: rstrip_def startswith_def)
next
  case (Cons c r)
  then have "\<not> isspace c" using hd_dropWhile[of isspace l] by auto
  then have "rstrip (c # r) = c # rstrip r" using rstrip_keep[of c "[]" r] by simp
  then show ?thesis unfolding strip_rstrip Cons by (simp add: startswith_def)
qed

lemma takeWhile_first: "x \<notin> set a \<Longrightarrow> takeWhile (\<lambda>c. c \<noteq> x) (a @ x # b) = a"
  by (induction a) auto

lemma dropWhile_first: "x \<notin> set a \<Longrightarrow> dropWhile (\<lambda>c. c \<noteq> x) (a @ x # b) = x # b"
  by (induction a) auto

lemma env_line_no_eq:
  assumes "61 \<notin> set l"
  shows "env_line l m = Inr m"
proof -
  from assms have "61 \<notin> set (strip l)" using set_strip_subset by blast
  then show ?thesis by (simp add: env_line_def Let_def)
qed

lemma env_line_eq:
  assumes "61 \<in> set l" "\<not> list_all isspace l"
    and "\<not> (case dropWhile isspace l of [] \<Rightarrow> False | c # _ \<Rightarrow> c = 35)"
  shows "env_line l m = Inr (m(spec_key l \<mapsto> spec_value l))"
proof -
  from assms(1) obtain a b where l: "l = a @ 61 # b" and a: "61 \<notin> set a"
    by (auto dest: split_list_first)
  let ?a = "dropWhile isspace a"
  have a': "61 \<notin> set ?a" using a by (auto dest: set_dropWhileD)
  have s: "strip l = ?a @ 61 # rstrip b" by (simp add: l strip_split)
  have k: "takeWhile (\<lambda>c. c \<noteq> 61) (strip l) = ?a"
    using a' unfolding s by (simp add: takeWhile_first)
  have v: "tl (dropWhile (\<lambda>c. c \<noteq> 61) (strip l)) = rstrip b"
    using a' unfolding s by (simp add: dropWhile_first)
  have k2: "takeWhile (\<lambda>c. c \<noteq> 61) l = a"
    using a unfolding l by (simp add: takeWhile_first)
  have v2: "tl (dropWhile (\<lambda>c. c \<noteq> 61) l) = b"
    using a unfolding l by (simp add: dropWhile_first)
  have ne: "strip l \<noteq> []" using assms(2) by (simp add: strip_nil_iff)
  have nh: "\<not> startswith (strip l) [35]" using assms(3) by (simp add: startswith_hash)
  have mem: "61 \<in> set (strip l)" by (simp add: s)
  have "env_line l m = Inr (m(strip ?a \<mapsto> strip (rstrip b)))"
    using ne nh mem unfolding env_line_def Let_def split_once_def k v by simp
  then show ?thesis
    by (simp add: spec_key_def spec_value_def k2 v2 strip_dropWhile strip_rstrip_absorb)
qed

lemma env_line_spec: "env_line l m = Inr (spec_step m l)"
proof (cases "spec_ignored l")
  case False
  then show ?thesis using env_line_eq[of l m] by (simp add: spec_ignored_def spec_step_def)
next
  case True
  have "env_line l m = Inr m"
  proof (cases "61 \<in> set l")
    case False then show ?thesis by (rule env_line_no_eq)
  next
    case e: True
    with True have "list_all isspace l \<or> (case dropWhile isspace l of [] \<Rightarrow> False | c # _ \<Rightarrow> c = 35)"
      by (simp add: spec_ignored_def)
    then have "strip l = [] \<or> startswith (strip l) [35]"
      unfolding strip_nil_iff startswith_hash .
    then show ?thesis unfolding env_line_def Let_def by auto
  qed
  with True show ?thesis by (simp add: spec_step_def)
qed

lemma env_lines_spec: "env_lines ls m = Inr (foldl spec_step m ls)"
  by (induction ls arbitrary: m) (simp_all add: env_line_spec)

lemma load_env_file_spec:
  "load_env_file (Content t) = Inr (spec_mapping (splitlines t))"
  by (simp add: load_env_file_def spec_mapping_def env_lines_spec)

lemma env_line_assigns:
  "env_line l Map.empty = Inr [k \<mapsto> v] \<longleftrightarrow> \<not> spec_ignored l \<and> spec_key l = k \<and> spec_value l = v"
proof (cases "spec_ignored l")
  case True
  have "Map.empty \<noteq> [k \<mapsto> v]"
  proof
    assume "Map.empty = [k \<mapsto> v]"
    from this[THEN fun_cong, of k] show False by simp
  qed
  with True show ?thesis by (simp add: env_line_spec spec_step_def)
next
  case False
  have "[spec_key l \<mapsto> spec_value l] = [k \<mapsto> v] \<longleftrightarrow> spec_key l = k \<and> spec_value l = v"
  proof
    assume e: "[spec_key l \<mapsto> spec_value l] = [k \<mapsto> v]"
    from e[THEN fun_cong, of k] show "spec_key l = k \<and> spec_value l = v"
      by (simp split: if_splits)
  qed simp
  with False show ?thesis by (simp add: env_line_spec spec_step_def)
qed

lemma spec_step_other:
  "spec_ignored x \<or> spec_key x \<noteq> k \<Longrightarrow> spec_step (m(k \<mapsto> v0)) x = (spec_step m x)(k \<mapsto> v0)"
  unfolding spec_step_def by (auto intro: fun_upd_twist)

lemma spec_step_same:
  "\<not> spec_ignored x \<Longrightarrow> spec_key x = k \<Longrightarrow> spec_step (m(k \<mapsto> v0)) x = spec_step m x"
  unfolding spec_step_def by auto

lemma spec_step_untouched:
  "spec_ignored x \<or> spec_key x \<noteq> k \<Longrightarrow> spec_step m x k = m k"
  unfolding spec_step_def by auto

lemma foldl_untouched:
  "\<forall>l\<in>set ls. spec_ignored l \<or> spec_key l \<noteq> k \<Longrightarrow> foldl spec_step m ls k = m k"
  by (induction ls arbitrary: m) (simp_all add: spec_step_untouched)

lemma foldl_overwritten:
  "(foldl spec_step (m(k \<mapsto> v0)) ls)(k \<mapsto> v) = (foldl spec_step m ls)(k \<mapsto> v)"
proof (induction ls arbitrary: m)
  case Nil
  show ?case unfolding foldl_Nil by (rule fun_upd_upd)
next
  case (Cons x ls)
  show ?case
  proof (cases "spec_ignored x \<or> spec_key x \<noteq> k")
    case True
    show ?thesis unfolding foldl_Cons spec_step_other[OF True] by (rule Cons)
  next
    case False
    then have "spec_step (m(k \<mapsto> v0)) x = spec_step m x" by (simp add: spec_step_same)
    then show ?thesis unfolding foldl_Cons by (rule arg_cong)
  qed
qed

lemma last_wins:
  assumes "splitlines t = before @ [l] @ after"
      and "env_line l Map.empty = Inr [k \<mapsto> v]"
      and "\<forall>l'\<in>set after. \<forall>v'. env_line l' Map.empty \<noteq> Inr [k \<mapsto> v']"
  shows "\<exists>m. load_env_file (Content t) = Inr m \<and> m k = Some v"
proof -
  from assms(2) have l: "\<not> spec_ignored l" "spec_key l = k" "spec_value l = v"
    by (simp_all add: env_line_assigns)
  then have sl: "spec_step m l = m(k \<mapsto> v)" for m by (simp add: spec_step_def)
  from assms(3) have "\<forall>l'\<in>set after. spec_ignored l' \<or> spec_key l' \<noteq> k"
    by (auto simp add: env_line_assigns)
  then have "foldl spec_step ((foldl spec_step Map.empty before)(k \<mapsto> v)) after k = Some v"
    by (simp add: foldl_untouched)
  then show ?thesis by (simp add: load_env_file_spec spec_mapping_def assms(1) sl)
qed

lemma earlier_no_effect:
  assumes "splitlines t = before @ [l0] @ mid @ [l] @ after"
      and "splitlines t2 = before @ mid @ [l] @ after"
      and "env_line l0 Map.empty = Inr [k \<mapsto> v0]"
      and "env_line l Map.empty = Inr [k \<mapsto> v]"
  shows "load_env_file (Content t) = load_env_file (Content t2)"
proof -
  from assms(3) have "\<not> spec_ignored l0" "spec_key l0 = k" "spec_value l0 = v0"
    by (simp_all add: env_line_assigns)
  then have s0: "spec_step m l0 = m(k \<mapsto> v0)" for m by (simp add: spec_step_def)
  from assms(4) have "\<not> spec_ignored l" "spec_key l = k" "spec_value l = v"
    by (simp_all add: env_line_assigns)
  then have sl: "spec_step m l = m(k \<mapsto> v)" for m by (simp add: spec_step_def)
  let ?b = "foldl spec_step Map.empty before"
  have "foldl spec_step ?b ([l0] @ mid @ [l]) = foldl spec_step ?b (mid @ [l])"
    unfolding foldl_append foldl_Cons foldl_Nil s0 sl by (rule foldl_overwritten)
  then have "foldl spec_step Map.empty (before @ [l0] @ mid @ [l] @ after)
           = foldl spec_step Map.empty (before @ mid @ [l] @ after)"
    by (simp only: foldl_append append_assoc[symmetric])
  then show ?thesis by (simp only: load_env_file_spec spec_mapping_def assms(1,2))
qed

section \<open>The configuration resolver\<close>

text \<open>
  C5: an absent file gives the empty mapping; the mapping of a file text is the one the
  parsing rules of the specification describe (blank lines, comment lines and lines
  without \<open>=\<close> are ignored, any other line is cut at its first \<open>=\<close> and both
  sides are trimmed); and the text of the example gives exactly \<open>{"FOO": "bar"}\<close>.
\<close>

theorem load_env_file_parsing_rules:
  "load_env_file Absent = Inr Map.empty
   \<and> load_env_file (Content t) = Inr (spec_mapping (splitlines t))
   \<and> load_env_file (Content (pystr '' # comment\<newline>\<newline>FOO = bar \<newline>''))
       = Inr [pystr ''FOO'' \<mapsto> pystr ''bar'']"
proof -
  have "load_env_file (Content (pystr '' # comment\<newline>\<newline>FOO = bar \<newline>''))
       = Inr [pystr ''FOO'' \<mapsto> pystr ''bar'']"
    by (simp add: load_env_file_def splitlines_def env_line_def strip_def isspace_def
        is_linebreak_def split_once_def startswith_def Let_def)
  moreover have "load_env_file Absent = Inr Map.empty" by (simp add: load_env_file_def)
  ultimately show ?thesis using load_env_file_spec[of t] by blast
qed

text \<open>
  The rules at a file with an assignment, a comment, a value holding \<open>=\<close> and a line
  without \<open>=\<close>.
\<close>

theorem load_env_file_parsing_rules_witness:
  "spec_ignored (pystr '' # no'') \<and> spec_ignored (pystr ''junk'')
   \<and> \<not> spec_ignored (pystr ''B = x=y '')
   \<and> load_env_file (Content (pystr ''A=1\<newline> # no\<newline>B = x=y \<newline>junk''))
       = Inr [pystr ''A'' \<mapsto> pystr ''1'', pystr ''B'' \<mapsto> pystr ''x=y'']"
  using load_env_file_parsing_rules[of "pystr ''A=1\<newline> # no\<newline>B = x=y \<newline>junk''"]
  by (simp add: spec_mapping_def spec_step_def spec_ignored_def spec_key_def spec_value_def
        splitlines_def strip_def isspace_def is_linebreak_def)

text \<open>
  C4: a non-empty value of the file is returned whatever the process environment
  holds; when the file has no entry or an empty one, the value of the process
  environment is returned if there is one.
\<close>

theorem get_env_value_file_first:
  "(env_file_values name = Some v \<and> v \<noteq> []
      \<longrightarrow> get_env_value os_environ name env_file_values = Inr v)
   \<and> ((env_file_values name = None \<or> env_file_values name = Some [])
        \<and> os_environ name = Some e
      \<longrightarrow> get_env_value os_environ name env_file_values = Inr e)"
  by (auto simp add: get_env_value_def)

text \<open>The three cases at a key that the environment defines.\<close>

theorem get_env_value_file_first_witness:
  "get_env_value [pystr ''K'' \<mapsto> pystr ''env''] (pystr ''K'') [pystr ''K'' \<mapsto> pystr ''file'']
     = Inr (pystr ''file'')
   \<and> get_env_value [pystr ''K'' \<mapsto> pystr ''env''] (pystr ''K'') [pystr ''K'' \<mapsto> []]
     = Inr (pystr ''env'')
   \<and> get_env_value [pystr ''K'' \<mapsto> pystr ''env''] (pystr ''K'') Map.empty
     = Inr (pystr ''env'')"
  using get_env_value_file_first[of "[pystr ''K'' \<mapsto> pystr ''file'']" "pystr ''K''" "pystr ''file''"
          "[pystr ''K'' \<mapsto> pystr ''env'']" "pystr ''env''"]
        get_env_value_file_first[of "[pystr ''K'' \<mapsto> []]" "pystr ''K''" "[]"
          "[pystr ''K'' \<mapsto> pystr ''env'']" "pystr ''env''"]
        get_env_value_file_first[of "Map.empty" "pystr ''K''" "[]"
          "[pystr ''K'' \<mapsto> pystr ''env'']" "pystr ''env''"]
  by simp

text \<open>
  A name with no non-empty value in the file and no value in the process environment
  makes \<open>get_env_value\<close> of the root script raise
  \<open>MissingEnvironmentVariableError\<close> with a message that quotes the name. The variant
  under \<open>src/\<close> never looks at the file: it raises the same error for a name that
  \<open>os.environ\<close> does not define once \<open>load_dotenv\<close> has run.
\<close>

lemma missing_variable_error:
  "((env_file_values name = None \<or> env_file_values name = Some []) \<and> os_environ name = None
      \<longrightarrow> get_env_value os_environ name env_file_values
          = Inl (MissingEnvironmentVariableError
                   (pystr ''Required variable '' @ [39] @ name @ [39]
                      @ pystr '' is not defined in .env or the environment.'')))
   \<and> (os_environ name = None
      \<longrightarrow> src_get_env_value os_environ name
          = Inl (MissingEnvironmentVariableError
                   (pystr ''Required variable '' @ [39] @ name @ [39]
                      @ pystr '' is not defined in .env or the environment.'')))"
  by (auto simp add: get_env_value_def src_get_env_value_def missing_message_def ENV_FILENAME_def)

text \<open>The error for \<open>SP_API_TOKEN\<close>, empty in the file and unset in the environment.\<close>

lemma missing_variable_error_example:
  "get_env_value [pystr ''OTHER'' \<mapsto> pystr ''x''] (pystr ''SP_API_TOKEN'') [pystr ''SP_API_TOKEN'' \<mapsto> []]
     = Inl (MissingEnvironmentVariableError
        (pystr ''Required variable '' @ [39] @ pystr ''SP_API_TOKEN'' @ [39] @ pystr '' is not defined in .env or the environment.''))
   \<and> src_get_env_value [pystr ''OTHER'' \<mapsto> pystr ''x''] (pystr ''SP_API_TOKEN'')
     = Inl (MissingEnvironmentVariableError
        (pystr ''Required variable '' @ [39] @ pystr ''SP_API_TOKEN'' @ [39] @ pystr '' is not defined in .env or the environment.''))"
  using missing_variable_error[of "[pystr ''SP_API_TOKEN'' \<mapsto> []]" "pystr ''SP_API_TOKEN''"
          "[pystr ''OTHER'' \<mapsto> pystr ''x'']"]
  by simp

text \<open>
  C10: when a line assigns a key and no later line assigns the same key, the mapping
  holds the trimmed value of that line; and removing an earlier assignment of a key
  that a later line assigns again does not change the mapping.
\<close>

theorem load_env_file_last_assignment_wins:
  "(splitlines t = before @ [l] @ after
      \<and> env_line l Map.empty = Inr [k \<mapsto> v]
      \<and> (\<forall>l'\<in>set after. \<forall>v'. env_line l' Map.empty \<noteq> Inr [k \<mapsto> v'])
    \<longrightarrow> (\<exists>m. load_env_file (Content t) = Inr m \<and> m k = Some v))
   \<and> (splitlines t = before @ [l0] @ mid @ [l] @ after
      \<and> splitlines t2 = before @ mid @ [l] @ after
      \<and> env_line l0 Map.empty = Inr [k \<mapsto> v0]
      \<and> env_line l Map.empty = Inr [k \<mapsto> v]
    \<longrightarrow> load_env_file (Content t) = load_env_file (Content t2))"
  using last_wins[of t before l after k v]
        earlier_no_effect[of t before l0 mid l after t2 k v0 v]
  by blast

lemma empty_neq_upd: "Map.empty \<noteq> m(k \<mapsto> v)"
proof
  assume "Map.empty = m(k \<mapsto> v)"
  from this[THEN fun_cong, of k] show False by simp
qed

lemmas line_eval = env_line_def strip_def isspace_def split_once_def startswith_def Let_def

text \<open>
  A file that assigns \<open>K\<close> twice, with a commented third assignment after them.
\<close>

theorem load_env_file_last_assignment_wins_witness:
  "(\<exists>m. load_env_file (Content (pystr ''X=1\<newline>K = a\<newline>Y=2\<newline>K=b\<newline>#K=c'')) = Inr m
        \<and> m (pystr ''K'') = Some (pystr ''b''))
   \<and> load_env_file (Content (pystr ''X=1\<newline>K = a\<newline>Y=2\<newline>K=b\<newline>#K=c''))
     = load_env_file (Content (pystr ''X=1\<newline>Y=2\<newline>K=b\<newline>#K=c''))"
proof -
  let ?t = "pystr ''X=1\<newline>K = a\<newline>Y=2\<newline>K=b\<newline>#K=c''"
  let ?t2 = "pystr ''X=1\<newline>Y=2\<newline>K=b\<newline>#K=c''"
  have l1: "splitlines ?t = [pystr ''X=1'', pystr ''K = a'', pystr ''Y=2''] @ [pystr ''K=b''] @ [pystr ''#K=c'']"
    by (simp add: splitlines_def is_linebreak_def)
  have l2: "splitlines ?t = [pystr ''X=1''] @ [pystr ''K = a''] @ [pystr ''Y=2''] @ [pystr ''K=b''] @ [pystr ''#K=c'']"
    by (simp add: splitlines_def is_linebreak_def)
  have l3: "splitlines ?t2 = [pystr ''X=1''] @ [pystr ''Y=2''] @ [pystr ''K=b''] @ [pystr ''#K=c'']"
    by (simp add: splitlines_def is_linebreak_def)
  have a: "env_line (pystr ''K=b'') Map.empty = Inr [pystr ''K'' \<mapsto> pystr ''b'']"
    by (simp add: line_eval)
  have a0: "env_line (pystr ''K = a'') Map.empty = Inr [pystr ''K'' \<mapsto> pystr ''a'']"
    by (simp add: line_eval)
  have c: "\<forall>l'\<in>set [pystr ''#K=c'']. \<forall>v'. env_line l' Map.empty \<noteq> Inr [pystr ''K'' \<mapsto> v']"
  proof -
    have "env_line (pystr ''#K=c'') Map.empty = Inr Map.empty" by (simp add: line_eval)
    then show ?thesis by (simp add: empty_neq_upd)
  qed
  have p1: "\<exists>m. load_env_file (Content ?t) = Inr m \<and> m (pystr ''K'') = Some (pystr ''b'')"
    using load_env_file_last_assignment_wins[of ?t "[pystr ''X=1'', pystr ''K = a'', pystr ''Y=2'']"
        "pystr ''K=b''" "[pystr ''#K=c'']" "pystr ''K''" "pystr ''b''"] l1 a c
    by blast
  have p2: "load_env_file (Content ?t) = load_env_file (Content ?t2)"
    using load_env_file_last_assignment_wins[of ?t "[pystr ''X=1'']"
        "pystr ''K=b''" "[pystr ''#K=c'']" "pystr ''K''" "pystr ''b''" "pystr ''K = a''" "[pystr ''Y=2'']"
        ?t2 "pystr ''a''"] l2 l3 a a0
    by blast
  from p1 p2 show ?thesis by blast
qed

section \<open>Properties of the token client\<close>

lemmas fetch_splits = sum.splits option.splits py_exception.splits

lemma fetch_stdout: "stdout (snd (fetch_access_token L w)) = stdout w"
  by (simp add: fetch_access_token_def Let_def split: fetch_splits)

lemma fetch_stderr_fail:
  "fst (fetch_access_token L w) = Inl e \<Longrightarrow> stderr (snd (fetch_access_token L w)) = stderr w"
  by (auto simp add: fetch_access_token_def Let_def split: fetch_splits)

lemma fetch_stderr_ok:
  "fst (fetch_access_token L w) = Inr tok \<Longrightarrow>
     \<exists>j. stderr (snd (fetch_access_token L w)) = stderr w @ json_dumps L j @ [10]"
  by (auto simp add: fetch_access_token_def Let_def split: fetch_splits)

lemma src_fetch_stdout: "stdout (snd (src_fetch_access_token L w)) = stdout w"
  by (simp add: src_fetch_access_token_def Let_def split: fetch_splits)

lemma src_fetch_stderr_fail:
  "fst (src_fetch_access_token L w) = Inl e \<Longrightarrow> stderr (snd (src_fetch_access_token L w)) = stderr w"
  by (auto simp add: src_fetch_access_token_def Let_def split: fetch_splits)

lemma src_fetch_stderr_ok:
  "fst (src_fetch_access_token L w) = Inr tok \<Longrightarrow>
     \<exists>j. stderr (snd (src_fetch_access_token L w)) = stderr w @ json_dumps L j @ [10]"
  by (auto simp add: src_fetch_access_token_def Let_def split: fetch_splits)

lemma getitem_Inr:
  "getitem L j key = Inr x \<longleftrightarrow> (\<exists>items. j = JObject items \<and> map_of items key = Some x)"
  by (auto simp add: getitem_def split: json.splits option.splits)




text \<open>The root script once the credentials are resolved and the body is read.\<close>

lemma fetch_after_read:
  assumes "load_env_file (dotenv_file w) = Inr env_values"
      and "get_env_value (environ w) (pystr ''SP_API_CLIENT_ID'') env_values = Inr client_id"
      and "get_env_value (environ w) (pystr ''SP_API_SECRET'') env_values = Inr client_secret"
      and "get_env_value (environ w) (pystr ''SP_API_TOKEN'') env_values = Inr refresh_token"
      and "urlopen L (token_request (build_request_payload L client_id client_secret refresh_token))
             = Inr response_text"
  shows "fst (fetch_access_token L w) =
           (case json_loads L response_text of
              None \<Rightarrow> Inl (RuntimeError (non_json_message response_text))
            | Some j \<Rightarrow>
                (case getitem L j (pystr ''access_token'') of
                   Inl (KeyError k) \<Rightarrow> Inl (RuntimeError missing_field_message)
                 | Inl e \<Rightarrow> Inl e
                 | Inr tok \<Rightarrow> Inr tok))"
    and "stderr (snd (fetch_access_token L w)) =
           (case json_loads L response_text of
              None \<Rightarrow> stderr w
            | Some j \<Rightarrow>
                (case getitem L j (pystr ''access_token'') of
                   Inl e \<Rightarrow> stderr w
                 | Inr tok \<Rightarrow> stderr w @ json_dumps L j @ [10]))"
  using assms
  by (simp_all add: fetch_access_token_def Let_def split: fetch_splits)

lemma src_fetch_after_read:
  assumes "src_get_env_value (load_dotenv L (dotenv_file w) (environ w)) (pystr ''SP_API_CLIENT_ID'')
             = Inr client_id"
      and "src_get_env_value (load_dotenv L (dotenv_file w) (environ w)) (pystr ''SP_API_SECRET'')
             = Inr client_secret"
      and "src_get_env_value (load_dotenv L (dotenv_file w) (environ w)) (pystr ''SP_API_TOKEN'')
             = Inr refresh_token"
      and "requests_send L
             (src_token_request (src_build_request_payload client_id client_secret refresh_token))
             = Inr response"
      and "raise_for_status L response = None"
  shows "fst (src_fetch_access_token L w) =
           (case resp_json response of
              Inl d \<Rightarrow> Inl (RuntimeError (non_json_message (resp_text response)))
            | Inr j \<Rightarrow>
                (case getitem L j (pystr ''access_token'') of
                   Inl (KeyError k) \<Rightarrow> Inl (RuntimeError missing_field_message)
                 | Inl e \<Rightarrow> Inl e
                 | Inr tok \<Rightarrow> Inr tok))"
    and "stderr (snd (src_fetch_access_token L w)) =
           (case resp_json response of
              Inl d \<Rightarrow> stderr w
            | Inr j \<Rightarrow>
                (case getitem L j (pystr ''access_token'') of
                   Inl e \<Rightarrow> stderr w
                 | Inr tok \<Rightarrow> stderr w @ json_dumps L j @ [10]))"
  using assms
  by (simp_all add: src_fetch_access_token_def Let_def split: fetch_splits)

text \<open>
  C1: when the body of the response parses as a JSON object that has the field
  \<open>access_token\<close>, \<open>fetch_access_token\<close> returns the value of that field, appends the
  object as \<open>json.dumps\<close> with \<open>indent=2\<close> renders it, and a newline, to standard error,
  and leaves standard output as it was. This holds for the root script and for the
  variant under \<open>src/\<close>.
\<close>

theorem fetch_access_token_success:
  "(load_env_file (dotenv_file w) = Inr env_values
      \<and> get_env_value (environ w) (pystr ''SP_API_CLIENT_ID'') env_values = Inr client_id
      \<and> get_env_value (environ w) (pystr ''SP_API_SECRET'') env_values = Inr client_secret
      \<and> get_env_value (environ w) (pystr ''SP_API_TOKEN'') env_values = Inr refresh_token
      \<and> urlopen L (token_request (build_request_payload L client_id client_secret refresh_token))
          = Inr response_text
      \<and> json_loads L response_text = Some (JObject items)
      \<and> map_of items (pystr ''access_token'') = Some tok
    \<longrightarrow> fst (fetch_access_token L w) = Inr tok
        \<and> stderr (snd (fetch_access_token L w)) = stderr w @ json_dumps L (JObject items) @ [10]
        \<and> stdout (snd (fetch_access_token L w)) = stdout w)
   \<and> (src_get_env_value (load_dotenv L (dotenv_file w) (environ w)) (pystr ''SP_API_CLIENT_ID'')
          = Inr client_id
      \<and> src_get_env_value (load_dotenv L (dotenv_file w) (environ w)) (pystr ''SP_API_SECRET'')
          = Inr client_secret
      \<and> src_get_env_value (load_dotenv L (dotenv_file w) (environ w)) (pystr ''SP_API_TOKEN'')
          = Inr refresh_token
      \<and> requests_send L
            (src_token_request (src_build_request_payload client_id client_secret refresh_token))
          = Inr response
      \<and> raise_for_status L response = None
      \<and> resp_json response = Inr (JObject items)
      \<and> map_of items (pystr ''access_token'') = Some tok
    \<longrightarrow> fst (src_fetch_access_token L w) = Inr tok
        \<and> stderr (snd (src_fetch_access_token L w))
            = stderr w @ json_dumps L (JObject items) @ [10]
        \<and> stdout (snd (src_fetch_access_token L w)) = stdout w)"
proof (intro conjI impI)
  assume h: "load_env_file (dotenv_file w) = Inr env_values
      \<and> get_env_value (environ w) (pystr ''SP_API_CLIENT_ID'') env_values = Inr client_id
      \<and> get_env_value (environ w) (pystr ''SP_API_SECRET'') env_values = Inr client_secret
      \<and> get_env_value (environ w) (pystr ''SP_API_TOKEN'') env_values = Inr refresh_token
      \<and> urlopen L (token_request (build_request_payload L client_id client_secret refresh_token))
          = Inr response_text
      \<and> json_loads L response_text = Some (JObject items)
      \<and> map_of items (pystr ''access_token'') = Some tok"
  then have g: "getitem L (JObject items) (pystr ''access_token'') = Inr tok"
    by (simp add: getitem_Inr)
  from h g show "fst (fetch_access_token L w) = Inr tok"
    by (simp add: fetch_after_read(1)[of w env_values client_id client_secret refresh_token L response_text])
  from h g show "stderr (snd (fetch_access_token L w)) = stderr w @ json_dumps L (JObject items) @ [10]"
    by (simp add: fetch_after_read(2)[of w env_values client_id client_secret refresh_token L response_text])
  show "stdout (snd (fetch_access_token L w)) = stdout w" by (rule fetch_stdout)
next
  assume h: "src_get_env_value (load_dotenv L (dotenv_file w) (environ w)) (pystr ''SP_API_CLIENT_ID'')
          = Inr client_id
      \<and> src_get_env_value (load_dotenv L (dotenv_file w) (environ w)) (pystr ''SP_API_SECRET'')
          = Inr client_secret
      \<and> src_get_env_value (load_dotenv L (dotenv_file w) (environ w)) (pystr ''SP_API_TOKEN'')
          = Inr refresh_token
      \<and> requests_send L
            (src_token_request (src_build_request_payload client_id client_secret refresh_token))
          = Inr response
      \<and> raise_for_status L response = None
      \<and> resp_json response = Inr (JObject items)
      \<and> map_of items (pystr ''access_token'') = Some tok"
  then have g: "getitem L (JObject items) (pystr ''access_token'') = Inr tok"
    by (simp add: getitem_Inr)
  from h g show "fst (src_fetch_access_token L w) = Inr tok"
    by (simp add: src_fetch_after_read(1)[of L w client_id client_secret refresh_token response])
  from h g show "stderr (snd (src_fetch_access_token L w)) = stderr w @ json_dumps L (JObject items) @ [10]"
    by (simp add: src_fetch_after_read(2)[of L w client_id client_secret refresh_token response])
  show "stdout (snd (src_fetch_access_token L w)) = stdout w" by (rule src_fetch_stdout)
qed

lemmas config_eval = load_env_file_def splitlines_def is_linebreak_def env_line_def strip_def
  isspace_def split_once_def startswith_def Let_def

lemma demo_env_values:
  "load_env_file (dotenv_file demo_world)
     = Inr [pystr ''SP_API_CLIENT_ID'' \<mapsto> pystr ''file-id'', pystr ''SP_API_SECRET'' \<mapsto> []]"
  by (simp add: demo_world_def config_eval)

lemma demo_credentials:
  "get_env_value (environ demo_world) (pystr ''SP_API_CLIENT_ID'')
     [pystr ''SP_API_CLIENT_ID'' \<mapsto> pystr ''file-id'', pystr ''SP_API_SECRET'' \<mapsto> []]
     = Inr (pystr ''file-id'')"
  "get_env_value (environ demo_world) (pystr ''SP_API_SECRET'')
     [pystr ''SP_API_CLIENT_ID'' \<mapsto> pystr ''file-id'', pystr ''SP_API_SECRET'' \<mapsto> []]
     = Inr (pystr ''env-secret'')"
  "get_env_value (environ demo_world) (pystr ''SP_API_TOKEN'')
     [pystr ''SP_API_CLIENT_ID'' \<mapsto> pystr ''file-id'', pystr ''SP_API_SECRET'' \<mapsto> []]
     = Inr (pystr ''env-refresh'')"
  by (simp_all add: demo_world_def get_env_value_def)

lemma demo_src_credentials:
  "src_get_env_value (load_dotenv (demo_lib out) (dotenv_file demo_world) (environ demo_world))
     (pystr ''SP_API_CLIENT_ID'') = Inr (pystr ''env-id'')"
  "src_get_env_value (load_dotenv (demo_lib out) (dotenv_file demo_world) (environ demo_world))
     (pystr ''SP_API_SECRET'') = Inr (pystr ''env-secret'')"
  "src_get_env_value (load_dotenv (demo_lib out) (dotenv_file demo_world) (environ demo_world))
     (pystr ''SP_API_TOKEN'') = Inr (pystr ''env-refresh'')"
  by (simp_all add: demo_world_def demo_lib_def src_get_env_value_def)

lemma demo_lib_fields:
  "json_loads (demo_lib out) = demo_loads"
  "urlopen (demo_lib out) req = (case out of Inl e \<Rightarrow> Inl e | Inr r \<Rightarrow> Inr (resp_text r))"
  "requests_send (demo_lib out) req = out"
  "raise_for_status (demo_lib out) r =
     (if 400 \<le> status_code r \<and> status_code r < 600
      then Some (RequestException (pystr ''Server Error'')) else None)"
  "json_dumps (demo_lib out) j = (if j = demo_token_json then demo_token_pretty else [])"
  "subscript_error (demo_lib out) j = pystr ''list indices must be integers or slices, not str''"
  by (simp_all add: demo_lib_def)

lemma demo_response_fields:
  "status_code (demo_response s b) = s"
  "resp_text (demo_response s b) = b"
  "resp_json (demo_response s b) =
     (case demo_loads b of
        None \<Rightarrow> Inl (pystr ''Expecting value: line 1 column 1 (char 0)'')
      | Some j \<Rightarrow> Inr j)"
  by (simp_all add: demo_response_def)

lemmas demo_eval = demo_lib_fields demo_response_fields demo_loads_def demo_token_text_def
  demo_error_text_def demo_token_json_def demo_error_json_def

text \<open>
  Both scripts at the response \<open>{"access_token": "abc123", "expires_in": 3600}\<close>.
\<close>

theorem fetch_access_token_success_witness:
  "fst (fetch_access_token (demo_lib (Inr (demo_response 200 demo_token_text))) demo_world)
     = Inr (JString (pystr ''abc123''))
   \<and> stderr (snd (fetch_access_token (demo_lib (Inr (demo_response 200 demo_token_text)))
                    demo_world))
     = demo_token_pretty @ [10]
   \<and> stdout (snd (fetch_access_token (demo_lib (Inr (demo_response 200 demo_token_text)))
                    demo_world)) = []
   \<and> fst (src_fetch_access_token (demo_lib (Inr (demo_response 200 demo_token_text))) demo_world)
     = Inr (JString (pystr ''abc123''))
   \<and> stderr (snd (src_fetch_access_token (demo_lib (Inr (demo_response 200 demo_token_text)))
                    demo_world))
     = demo_token_pretty @ [10]
   \<and> stdout (snd (src_fetch_access_token (demo_lib (Inr (demo_response 200 demo_token_text)))
                    demo_world)) = []"
proof -
  let ?L = "demo_lib (Inr (demo_response 200 demo_token_text))"
  have m: "map_of [(pystr ''access_token'', JString (pystr ''abc123'')), (pystr ''expires_in'', JInt 3600)]
            (pystr ''access_token'') = Some (JString (pystr ''abc123''))"
    by simp
  have s: "stderr demo_world = []" "stdout demo_world = []" by (simp_all add: demo_world_def)
  have root: "fst (fetch_access_token ?L demo_world) = Inr (JString (pystr ''abc123''))
      \<and> stderr (snd (fetch_access_token ?L demo_world)) = demo_token_pretty @ [10]
      \<and> stdout (snd (fetch_access_token ?L demo_world)) = []"
    using fetch_access_token_success[where w = demo_world and L = ?L
        and env_values = "[pystr ''SP_API_CLIENT_ID'' \<mapsto> pystr ''file-id'', pystr ''SP_API_SECRET'' \<mapsto> []]"
        and client_id = "pystr ''file-id''" and client_secret = "pystr ''env-secret''"
        and refresh_token = "pystr ''env-refresh''" and response_text = demo_token_text
        and items = "[(pystr ''access_token'', JString (pystr ''abc123'')), (pystr ''expires_in'', JInt 3600)]"
        and tok = "JString (pystr ''abc123'')"]
      demo_env_values demo_credentials m s
    by (simp add: demo_eval)
  have src: "fst (src_fetch_access_token ?L demo_world) = Inr (JString (pystr ''abc123''))
      \<and> stderr (snd (src_fetch_access_token ?L demo_world)) = demo_token_pretty @ [10]
      \<and> stdout (snd (src_fetch_access_token ?L demo_world)) = []"
    using fetch_access_token_success[where w = demo_world and L = ?L
        and client_id = "pystr ''env-id''" and client_secret = "pystr ''env-secret''"
        and refresh_token = "pystr ''env-refresh''"
        and response = "demo_response 200 demo_token_text"
        and items = "[(pystr ''access_token'', JString (pystr ''abc123'')), (pystr ''expires_in'', JInt 3600)]"
        and tok = "JString (pystr ''abc123'')"]
      demo_src_credentials[of "Inr (demo_response 200 demo_token_text)"] m s
    by (simp add: demo_eval)
  from root src show ?thesis by simp
qed




subsection \<open>The request\<close>

lemma src_request_failure_wrapped:
  assumes "src_get_env_value (load_dotenv L (dotenv_file w) (environ w)) (pystr ''SP_API_CLIENT_ID'')
             = Inr client_id"
      and "src_get_env_value (load_dotenv L (dotenv_file w) (environ w)) (pystr ''SP_API_SECRET'')
             = Inr client_secret"
      and "src_get_env_value (load_dotenv L (dotenv_file w) (environ w)) (pystr ''SP_API_TOKEN'')
             = Inr refresh_token"
      and "requests_send L
             (src_token_request (src_build_request_payload client_id client_secret refresh_token))
             = Inl (RequestException m)
           \<or> (\<exists>response.
                 requests_send L
                   (src_token_request (src_build_request_payload client_id client_secret refresh_token))
                   = Inr response
                 \<and> raise_for_status L response = Some (RequestException m))"
  shows "fst (src_fetch_access_token L w)
           = Inl (RuntimeError (pystr ''Failed to fetch access token: '' @ m))"
  using assms by (auto simp add: src_fetch_access_token_def Let_def)

lemma root_request_failure_propagates:
  assumes "load_env_file (dotenv_file w) = Inr env_values"
      and "get_env_value (environ w) (pystr ''SP_API_CLIENT_ID'') env_values = Inr client_id"
      and "get_env_value (environ w) (pystr ''SP_API_SECRET'') env_values = Inr client_secret"
      and "get_env_value (environ w) (pystr ''SP_API_TOKEN'') env_values = Inr refresh_token"
      and "urlopen L (token_request (build_request_payload L client_id client_secret refresh_token))
             = Inl e"
  shows "fst (fetch_access_token L w) = Inl e"
  using assms by (simp add: fetch_access_token_def Let_def)

text \<open>
  C3 at a refused connection: \<open>fetch_access_token\<close> of the root script has no handler
  around \<open>urlopen\<close> and fails with the error of the library itself, where the variant
  under \<open>src/\<close> fails with the \<open>RuntimeError\<close> that wraps the cause. Neither returns a
  token.
\<close>

theorem request_failure_not_wrapped:
  "fst (fetch_access_token
          (demo_lib (Inl (OtherException (pystr ''<urlopen error [Errno 111] Connection refused>''))))
          demo_world)
     = Inl (OtherException (pystr ''<urlopen error [Errno 111] Connection refused>''))
   \<and> fst (src_fetch_access_token
          (demo_lib (Inl (RequestException (pystr ''Connection refused'')))) demo_world)
     = Inl (RuntimeError (pystr ''Failed to fetch access token: Connection refused''))"
proof -
  have a: "fst (fetch_access_token
          (demo_lib (Inl (OtherException (pystr ''<urlopen error [Errno 111] Connection refused>''))))
          demo_world)
     = Inl (OtherException (pystr ''<urlopen error [Errno 111] Connection refused>''))"
    by (rule root_request_failure_propagates[OF demo_env_values demo_credentials])
       (simp add: demo_eval)
  have b: "fst (src_fetch_access_token
          (demo_lib (Inl (RequestException (pystr ''Connection refused'')))) demo_world)
     = Inl (RuntimeError (pystr ''Failed to fetch access token: '' @ pystr ''Connection refused''))"
    by (rule src_request_failure_wrapped[OF demo_src_credentials]) (simp add: demo_eval)
  from a b show ?thesis by simp
qed

lemma fetch_sent:
  "sent (snd (fetch_access_token L w)) = sent w
   \<or> (\<exists>payload. sent (snd (fetch_access_token L w)) = sent w @ [token_request payload])"
  by (auto simp add: fetch_access_token_def Let_def split: fetch_splits)

lemma src_fetch_sent:
  "sent (snd (src_fetch_access_token L w)) = sent w
   \<or> (\<exists>payload. sent (snd (src_fetch_access_token L w)) = sent w @ [src_token_request payload])"
  by (auto simp add: src_fetch_access_token_def Let_def split: fetch_splits)

lemma src_token_request_fields:
  "req_timeout (src_token_request payload) = Some 30"
  "req_method (src_token_request payload) = pystr ''POST''"
  "req_url (src_token_request payload) = pystr ''https://api.amazon.com/auth/o2/token''"
  "req_headers (src_token_request payload)
     = [(pystr ''Content-Type'', pystr ''application/x-www-form-urlencoded;charset=UTF-8'')]"
  by (simp_all add: src_token_request_def TOKEN_ENDPOINT_def FORM_CONTENT_TYPE_def)

lemma token_request_fields:
  "req_timeout (token_request payload) = None"
  "req_method (token_request payload) = pystr ''POST''"
  "req_url (token_request payload) = pystr ''https://api.amazon.com/auth/o2/token''"
  "req_headers (token_request payload)
     = [(pystr ''Content-Type'', pystr ''application/x-www-form-urlencoded;charset=UTF-8'')]"
  by (simp_all add: token_request_def TOKEN_ENDPOINT_def FORM_CONTENT_TYPE_def)

lemma fetch_sent_after_read:
  assumes "load_env_file (dotenv_file w) = Inr env_values"
      and "get_env_value (environ w) (pystr ''SP_API_CLIENT_ID'') env_values = Inr client_id"
      and "get_env_value (environ w) (pystr ''SP_API_SECRET'') env_values = Inr client_secret"
      and "get_env_value (environ w) (pystr ''SP_API_TOKEN'') env_values = Inr refresh_token"
  shows "sent (snd (fetch_access_token L w))
           = sent w @ [token_request (build_request_payload L client_id client_secret refresh_token)]"
  using assms by (simp add: fetch_access_token_def Let_def split: fetch_splits)

lemma src_fetch_sent_after_read:
  assumes "src_get_env_value (load_dotenv L (dotenv_file w) (environ w)) (pystr ''SP_API_CLIENT_ID'')
             = Inr client_id"
      and "src_get_env_value (load_dotenv L (dotenv_file w) (environ w)) (pystr ''SP_API_SECRET'')
             = Inr client_secret"
      and "src_get_env_value (load_dotenv L (dotenv_file w) (environ w)) (pystr ''SP_API_TOKEN'')
             = Inr refresh_token"
  shows "sent (snd (src_fetch_access_token L w))
           = sent w @ [src_token_request (src_build_request_payload client_id client_secret refresh_token)]"
  using assms by (simp add: src_fetch_access_token_def Let_def split: fetch_splits)

text \<open>
  C9 at a run that reaches the token endpoint: both scripts send one request with the
  form content type; the request of the variant under \<open>src/\<close> has a timeout of 30
  seconds, the request of the root script has none.
\<close>

theorem token_request_without_timeout:
  "map req_timeout
     (sent (snd (fetch_access_token (demo_lib (Inr (demo_response 200 demo_token_text)))
                   demo_world))) = [None]
   \<and> map req_headers
     (sent (snd (fetch_access_token (demo_lib (Inr (demo_response 200 demo_token_text)))
                   demo_world)))
       = [[(pystr ''Content-Type'', pystr ''application/x-www-form-urlencoded;charset=UTF-8'')]]
   \<and> map req_timeout
     (sent (snd (src_fetch_access_token (demo_lib (Inr (demo_response 200 demo_token_text)))
                   demo_world))) = [Some 30]
   \<and> map req_headers
     (sent (snd (src_fetch_access_token (demo_lib (Inr (demo_response 200 demo_token_text)))
                   demo_world)))
       = [[(pystr ''Content-Type'', pystr ''application/x-www-form-urlencoded;charset=UTF-8'')]]"
proof -
  have s: "sent demo_world = []" by (simp add: demo_world_def)
  show ?thesis
    unfolding fetch_sent_after_read[OF demo_env_values demo_credentials]
      src_fetch_sent_after_read[OF demo_src_credentials] s
    by (simp add: token_request_fields src_token_request_fields)
qed

subsection \<open>The entry point\<close>

lemma entry_point_cases:
  assumes out: "stdout w1 = stdout w"
      and fail: "\<forall>e. r = Inl e \<longrightarrow> stderr w1 = stderr w"
      and ok: "\<forall>tok. r = Inr tok \<longrightarrow> (\<exists>j. stderr w1 = stderr w @ json_dumps L j @ [10])"
      and m: "res =
        (case (r, w1) of
           (Inl (MissingEnvironmentVariableError m), w1) \<Rightarrow>
             (1, w1\<lparr>stderr := stderr w1 @ m @ [10]\<rparr>)
         | (Inl e, w1) \<Rightarrow>
             (1, w1\<lparr>stderr := stderr w1 @ pystr ''Failed to retrieve access token: ''
                                 @ exc_str e @ [10]\<rparr>)
         | (Inr token, w1) \<Rightarrow>
             (0::int, w1\<lparr>stdout := stdout w1 @ str_json L token @ [10]\<rparr>))"
  shows "(\<forall>tok. r = Inr tok \<longrightarrow>
            fst res = 0 \<and> stdout (snd res) = stdout w @ str_json L tok @ [10]
            \<and> (\<exists>j. stderr (snd res) = stderr w @ json_dumps L j @ [10]))
       \<and> (\<forall>e. r = Inl e \<longrightarrow>
            fst res = 1 \<and> stdout (snd res) = stdout w
            \<and> stderr (snd res) =
                stderr w @ (case e of
                              MissingEnvironmentVariableError m \<Rightarrow> m
                            | _ \<Rightarrow> pystr ''Failed to retrieve access token: '' @ exc_str e)
                  @ [10])"
proof (cases r)
  case (Inr tok)
  with ok out m show ?thesis by auto
next
  case (Inl e)
  with fail out m show ?thesis by (cases e) auto
qed

text \<open>
  C7: when \<open>fetch_access_token\<close> returns a token the script exits with status 0,
  standard output gains the token and a newline and nothing else, and standard error
  gains the rendered JSON; when it raises, the script exits with status 1, standard
  output is unchanged, and standard error gains one line: the message of a
  \<open>MissingEnvironmentVariableError\<close>, or \<open>Failed to retrieve access token:\<close> followed by
  the message of any other exception. This holds for both scripts.
\<close>

theorem main_exit_status_and_streams:
  "(\<forall>tok. fst (fetch_access_token L w) = Inr tok \<longrightarrow>
      fst (main L w) = 0
      \<and> stdout (snd (main L w)) = stdout w @ str_json L tok @ [10]
      \<and> (\<exists>j. stderr (snd (main L w)) = stderr w @ json_dumps L j @ [10]))
   \<and> (\<forall>e. fst (fetch_access_token L w) = Inl e \<longrightarrow>
      fst (main L w) = 1
      \<and> stdout (snd (main L w)) = stdout w
      \<and> stderr (snd (main L w)) =
          stderr w @ (case e of
                        MissingEnvironmentVariableError m \<Rightarrow> m
                      | _ \<Rightarrow> pystr ''Failed to retrieve access token: '' @ exc_str e)
            @ [10])
   \<and> (\<forall>tok. fst (src_fetch_access_token L w) = Inr tok \<longrightarrow>
      fst (src_main L w) = 0
      \<and> stdout (snd (src_main L w)) = stdout w @ str_json L tok @ [10]
      \<and> (\<exists>j. stderr (snd (src_main L w)) = stderr w @ json_dumps L j @ [10]))
   \<and> (\<forall>e. fst (src_fetch_access_token L w) = Inl e \<longrightarrow>
      fst (src_main L w) = 1
      \<and> stdout (snd (src_main L w)) = stdout w
      \<and> stderr (snd (src_main L w)) =
          stderr w @ (case e of
                        MissingEnvironmentVariableError m \<Rightarrow> m
                      | _ \<Rightarrow> pystr ''Failed to retrieve access token: '' @ exc_str e)
            @ [10])"
proof -
  have a: "main L w =
        (case (fst (fetch_access_token L w), snd (fetch_access_token L w)) of
           (Inl (MissingEnvironmentVariableError m), w1) \<Rightarrow>
             (1, w1\<lparr>stderr := stderr w1 @ m @ [10]\<rparr>)
         | (Inl e, w1) \<Rightarrow>
             (1, w1\<lparr>stderr := stderr w1 @ pystr ''Failed to retrieve access token: ''
                                 @ exc_str e @ [10]\<rparr>)
         | (Inr token, w1) \<Rightarrow>
             (0::int, w1\<lparr>stdout := stdout w1 @ str_json L token @ [10]\<rparr>))"
    by (simp add: main_def)
  have b: "src_main L w =
        (case (fst (src_fetch_access_token L w), snd (src_fetch_access_token L w)) of
           (Inl (MissingEnvironmentVariableError m), w1) \<Rightarrow>
             (1, w1\<lparr>stderr := stderr w1 @ m @ [10]\<rparr>)
         | (Inl e, w1) \<Rightarrow>
             (1, w1\<lparr>stderr := stderr w1 @ pystr ''Failed to retrieve access token: ''
                                 @ exc_str e @ [10]\<rparr>)
         | (Inr token, w1) \<Rightarrow>
             (0::int, w1\<lparr>stdout := stdout w1 @ str_json L token @ [10]\<rparr>))"
    by (simp add: src_main_def)
  have f1: "\<forall>e. fst (fetch_access_token L w) = Inl e
              \<longrightarrow> stderr (snd (fetch_access_token L w)) = stderr w"
    using fetch_stderr_fail by blast
  have k1: "\<forall>tok. fst (fetch_access_token L w) = Inr tok
              \<longrightarrow> (\<exists>j. stderr (snd (fetch_access_token L w)) = stderr w @ json_dumps L j @ [10])"
    using fetch_stderr_ok by blast
  have f2: "\<forall>e. fst (src_fetch_access_token L w) = Inl e
              \<longrightarrow> stderr (snd (src_fetch_access_token L w)) = stderr w"
    using src_fetch_stderr_fail by blast
  have k2: "\<forall>tok. fst (src_fetch_access_token L w) = Inr tok
              \<longrightarrow> (\<exists>j. stderr (snd (src_fetch_access_token L w))
                         = stderr w @ json_dumps L j @ [10])"
    using src_fetch_stderr_ok by blast
  from entry_point_cases[OF fetch_stdout f1 k1 a] entry_point_cases[OF src_fetch_stdout f2 k2 b]
  show ?thesis by blast
qed

lemma bare_fetch:
  "fetch_access_token L bare_world
     = (Inl (MissingEnvironmentVariableError (missing_message (pystr ''SP_API_CLIENT_ID''))),
        bare_world)"
  by (simp add: fetch_access_token_def load_env_file_def get_env_value_def bare_world_def)

lemma demo_fetch_token:
  "fst (fetch_access_token (demo_lib (Inr (demo_response 200 demo_token_text))) demo_world)
     = Inr (JString (pystr ''abc123''))"
  unfolding fetch_after_read(1)[OF demo_env_values demo_credentials,
      of "demo_lib (Inr (demo_response 200 demo_token_text))" demo_token_text,
      unfolded demo_lib_fields, simplified demo_response_fields sum.case, OF refl]
  by (simp add: demo_eval getitem_def)

lemma demo_fetch_not_json:
  "fst (fetch_access_token (demo_lib (Inr (demo_response 200 (pystr ''not json'')))) demo_world)
     = Inl (RuntimeError (non_json_message (pystr ''not json'')))"
  unfolding fetch_after_read(1)[OF demo_env_values demo_credentials,
      of "demo_lib (Inr (demo_response 200 (pystr ''not json'')))" "pystr ''not json''",
      unfolded demo_lib_fields, simplified demo_response_fields sum.case, OF refl]
  by (simp add: demo_eval)

lemma demo_src_fetch_token:
  "fst (src_fetch_access_token (demo_lib (Inr (demo_response 200 demo_token_text))) demo_world)
     = Inr (JString (pystr ''abc123''))"
proof -
  let ?L = "demo_lib (Inr (demo_response 200 demo_token_text))"
  have p: "requests_send ?L req = Inr (demo_response 200 demo_token_text)" for req
    by (simp add: demo_eval)
  have r: "raise_for_status ?L (demo_response 200 demo_token_text) = None"
    by (simp add: demo_eval)
  show ?thesis
    unfolding src_fetch_after_read(1)[OF demo_src_credentials p r]
    by (simp add: demo_eval getitem_def)
qed

text \<open>
  A successful run, a run with no credential anywhere, and a run whose response is
  not JSON.
\<close>

theorem main_exit_status_and_streams_witness:
  "fst (main (demo_lib (Inr (demo_response 200 demo_token_text))) demo_world) = 0
   \<and> stdout (snd (main (demo_lib (Inr (demo_response 200 demo_token_text))) demo_world))
       = pystr ''abc123\<newline>''
   \<and> fst (main (demo_lib (Inr (demo_response 200 demo_token_text))) bare_world) = 1
   \<and> stdout (snd (main (demo_lib (Inr (demo_response 200 demo_token_text))) bare_world)) = []
   \<and> stderr (snd (main (demo_lib (Inr (demo_response 200 demo_token_text))) bare_world))
       = pystr ''Required variable '' @ [39] @ pystr ''SP_API_CLIENT_ID'' @ [39]
           @ pystr '' is not defined in .env or the environment.\<newline>''
   \<and> fst (main (demo_lib (Inr (demo_response 200 (pystr ''not json'')))) demo_world) = 1
   \<and> stdout (snd (main (demo_lib (Inr (demo_response 200 (pystr ''not json'')))) demo_world)) = []
   \<and> stderr (snd (main (demo_lib (Inr (demo_response 200 (pystr ''not json'')))) demo_world))
       = pystr ''Failed to retrieve access token: Amazon SP-API token endpoint returned non-JSON response: not json\<newline>''
   \<and> fst (src_main (demo_lib (Inr (demo_response 200 demo_token_text))) demo_world) = 0
   \<and> stdout (snd (src_main (demo_lib (Inr (demo_response 200 demo_token_text))) demo_world))
       = pystr ''abc123\<newline>''"
proof -
  let ?T = "demo_lib (Inr (demo_response 200 demo_token_text))"
  let ?N = "demo_lib (Inr (demo_response 200 (pystr ''not json'')))"
  have s: "stdout demo_world = []" "stderr demo_world = []"
          "stdout bare_world = []" "stderr bare_world = []"
    by (simp_all add: demo_world_def bare_world_def)
  have a: "fst (main ?T demo_world) = 0
        \<and> stdout (snd (main ?T demo_world)) = pystr ''abc123\<newline>''
        \<and> fst (src_main ?T demo_world) = 0
        \<and> stdout (snd (src_main ?T demo_world)) = pystr ''abc123\<newline>''"
    using main_exit_status_and_streams[of ?T demo_world] demo_fetch_token demo_src_fetch_token s
    by (simp add: str_json_def)
  have b: "fst (main ?T bare_world) = 1
        \<and> stdout (snd (main ?T bare_world)) = []
        \<and> stderr (snd (main ?T bare_world))
           = pystr ''Required variable '' @ [39] @ pystr ''SP_API_CLIENT_ID'' @ [39]
               @ pystr '' is not defined in .env or the environment.\<newline>''"
    using main_exit_status_and_streams[of ?T bare_world] bare_fetch[of ?T] s
    by (simp add: missing_message_def ENV_FILENAME_def)
  have c: "fst (main ?N demo_world) = 1
        \<and> stdout (snd (main ?N demo_world)) = []
        \<and> stderr (snd (main ?N demo_world))
           = pystr ''Failed to retrieve access token: Amazon SP-API token endpoint returned non-JSON response: not json\<newline>''"
    using main_exit_status_and_streams[of ?N demo_world] demo_fetch_not_json s
    by (simp add: non_json_message_def)
  from a b c show ?thesis by simp
qed

subsection \<open>An empty value in the file\<close>

lemma empty_secret_file:
  "load_env_file (dotenv_file empty_secret_world) = Inr [pystr ''SP_API_SECRET'' \<mapsto> []]"
  by (simp add: empty_secret_world_def config_eval)

lemma empty_secret_src_credentials:
  "src_get_env_value
     (load_dotenv (dotenv_lib out) (dotenv_file empty_secret_world) (environ empty_secret_world))
     (pystr ''SP_API_CLIENT_ID'') = Inr (pystr ''env-id'')"
  "src_get_env_value
     (load_dotenv (dotenv_lib out) (dotenv_file empty_secret_world) (environ empty_secret_world))
     (pystr ''SP_API_SECRET'') = Inr []"
  "src_get_env_value
     (load_dotenv (dotenv_lib out) (dotenv_file empty_secret_world) (environ empty_secret_world))
     (pystr ''SP_API_TOKEN'') = Inr (pystr ''env-refresh'')"
  by (simp_all add: dotenv_lib_def empty_secret_file src_get_env_value_def)
     (simp_all add: empty_secret_world_def)

text \<open>
  C6 at a file that defines \<open>SP_API_SECRET\<close> with an empty value, the variable being
  unset in the process environment: the root script raises
  \<open>MissingEnvironmentVariableError\<close> naming the variable and sends nothing; the variant
  under \<open>src/\<close> raises nothing, resolves the secret to the empty string, posts it and
  returns the token.
\<close>

theorem empty_file_value_not_missing:
  "environ empty_secret_world (pystr ''SP_API_SECRET'') = None
   \<and> load_env_file (dotenv_file empty_secret_world) = Inr [pystr ''SP_API_SECRET'' \<mapsto> []]
   \<and> fst (fetch_access_token (dotenv_lib (Inr (demo_response 200 demo_token_text)))
            empty_secret_world)
       = Inl (MissingEnvironmentVariableError
                (pystr ''Required variable '' @ [39] @ pystr ''SP_API_SECRET'' @ [39]
                   @ pystr '' is not defined in .env or the environment.''))
   \<and> src_get_env_value
         (load_dotenv (dotenv_lib (Inr (demo_response 200 demo_token_text)))
            (dotenv_file empty_secret_world) (environ empty_secret_world))
         (pystr ''SP_API_SECRET'') = Inr []
   \<and> fst (src_fetch_access_token (dotenv_lib (Inr (demo_response 200 demo_token_text)))
            empty_secret_world)
       = Inr (JString (pystr ''abc123''))
   \<and> map req_data
         (sent (snd (src_fetch_access_token (dotenv_lib (Inr (demo_response 200 demo_token_text)))
                       empty_secret_world)))
       = [Form [(pystr ''client_id'', pystr ''env-id''),
                (pystr ''client_secret'', []),
                (pystr ''grant_type'', pystr ''refresh_token''),
                (pystr ''refresh_token'', pystr ''env-refresh'')]]"
proof -
  let ?L = "dotenv_lib (Inr (demo_response 200 demo_token_text))"
  have e: "environ empty_secret_world (pystr ''SP_API_SECRET'') = None"
    by (simp add: empty_secret_world_def)
  have root: "fst (fetch_access_token ?L empty_secret_world)
       = Inl (MissingEnvironmentVariableError
                (pystr ''Required variable '' @ [39] @ pystr ''SP_API_SECRET'' @ [39]
                   @ pystr '' is not defined in .env or the environment.''))"
    unfolding fetch_access_token_def empty_secret_file
    by (simp add: get_env_value_def empty_secret_world_def missing_message_def ENV_FILENAME_def)
  have p: "requests_send ?L req = Inr (demo_response 200 demo_token_text)" for req
    by (simp add: dotenv_lib_def demo_eval)
  have r: "raise_for_status ?L (demo_response 200 demo_token_text) = None"
    by (simp add: dotenv_lib_def demo_eval)
  have tok: "fst (src_fetch_access_token ?L empty_secret_world) = Inr (JString (pystr ''abc123''))"
    unfolding src_fetch_after_read(1)[OF empty_secret_src_credentials p r]
    by (simp add: demo_eval getitem_def)
  have s: "sent empty_secret_world = []" by (simp add: empty_secret_world_def)
  have req: "map req_data (sent (snd (src_fetch_access_token ?L empty_secret_world)))
       = [Form [(pystr ''client_id'', pystr ''env-id''),
                (pystr ''client_secret'', []),
                (pystr ''grant_type'', pystr ''refresh_token''),
                (pystr ''refresh_token'', pystr ''env-refresh'')]]"
    unfolding src_fetch_sent_after_read[OF empty_secret_src_credentials] s
    by (simp add: src_token_request_def src_build_request_payload_def)
  from e empty_secret_file root empty_secret_src_credentials(2)[of "Inr (demo_response 200 demo_token_text)"]
       tok req
  show ?thesis by blast
qed

section \<open>Properties of the sandbox caller\<close>

lemma str_of_int_200: "str_of_int 200 = [50, 48, 48]"
  by (simp add: str_of_int_def digits.simps[of 200] digits.simps[of 20] digits.simps[of 2])

text \<open>
  C8, amended: with the table of the module, \<open>fetch_example\<close> hands exactly one request
  to the HTTP library, a GET of the orders URL of the NA sandbox host with the two
  query parameters and the three headers; it writes nothing to standard error; and
  when the library returns a response it appends the status code and a newline to
  standard output and returns the parsed body when the body parses.
\<close>

theorem fetch_example_request_and_output:
  "sent (snd (fetch_example L sandbox_endpoints token w))
     = sent w @
       [\<lparr>req_method = pystr ''GET'',
         req_url = pystr ''https://sandbox.sellingpartnerapi-na.amazon.com/orders/v0/orders'',
         req_headers =
           [(pystr ''x-amz-access-token'', token),
            (pystr ''Content-Type'', pystr ''application/json''),
            (pystr ''User-Agent'', pystr ''My-Testing-App/1.0'')],
         req_params =
           [(pystr ''MarketplaceIds'', pystr ''ATVPDKIKX0DER''),
            (pystr ''CreatedAfter'', pystr ''TEST_CASE_200'')],
         req_data = NoData, req_timeout = None\<rparr>]
   \<and> stderr (snd (fetch_example L sandbox_endpoints token w)) = stderr w
   \<and> (\<forall>response.
         requests_send L
           (example_request
              (pystr ''https://sandbox.sellingpartnerapi-na.amazon.com/orders/v0/orders'') token)
           = Inr response
       \<longrightarrow> stdout (snd (fetch_example L sandbox_endpoints token w))
             = stdout w @ str_of_int (status_code response) @ [10]
           \<and> (\<forall>body. resp_json response = Inr body
                \<longrightarrow> fst (fetch_example L sandbox_endpoints token w) = Inr body))"
  by (simp add: fetch_example_def sandbox_endpoints_def example_request_def Let_def
        split: sum.splits)

text \<open>
  C8 as stated fails: at a response with status 200 the text \<open>200\<close> goes to standard
  output, and standard error stays empty.
\<close>

theorem status_code_on_stdout_counterexample:
  "stdout demo_world = [] \<and> stderr demo_world = []
   \<and> stdout (snd (fetch_example (demo_lib (Inr (demo_response 200 demo_token_text)))
                     sandbox_endpoints (pystr ''abc123'') demo_world))
       = pystr ''200\<newline>''
   \<and> stderr (snd (fetch_example (demo_lib (Inr (demo_response 200 demo_token_text)))
                     sandbox_endpoints (pystr ''abc123'') demo_world)) = []"
  by (simp add: fetch_example_def sandbox_endpoints_def Let_def demo_eval demo_world_def
        str_of_int_200)

text \<open>
  The sandbox call at a response with status 200 and a JSON body.
\<close>

theorem fetch_example_request_and_output_witness:
  "stdout (snd (fetch_example (demo_lib (Inr (demo_response 200 demo_token_text)))
                  sandbox_endpoints (pystr ''abc123'') demo_world))
     = pystr ''200\<newline>''
   \<and> fst (fetch_example (demo_lib (Inr (demo_response 200 demo_token_text)))
            sandbox_endpoints (pystr ''abc123'') demo_world)
     = Inr demo_token_json
   \<and> map req_url (sent (snd (fetch_example (demo_lib (Inr (demo_response 200 demo_token_text)))
                  sandbox_endpoints (pystr ''abc123'') demo_world)))
     = [pystr ''https://sandbox.sellingpartnerapi-na.amazon.com/orders/v0/orders'']"
proof -
  have s: "stdout demo_world = []" "sent demo_world = []" by (simp_all add: demo_world_def)
  show ?thesis
    using fetch_example_request_and_output[of "demo_lib (Inr (demo_response 200 demo_token_text))"
        "pystr ''abc123''" demo_world] s
    by (simp add: demo_eval str_of_int_200)
qed

end
